theory Spec2Isabelle
  imports Main
begin

section \<open>Data model\<close>

text \<open>
  The program is a Telegram bot (\<^verbatim>\<open>father.py\<close>) with one piece of process-wide state,
  the dictionary \<^verbatim>\<open>message_history\<close>, and two handlers that matter here:
  \<^verbatim>\<open>store_message\<close> (ingest) and \<^verbatim>\<open>summarize\<close> (trigger).

  A Python \<^verbatim>\<open>str\<close> is a sequence of Unicode code points and \<^verbatim>\<open>len\<close> counts code points,
  so a string is modelled as a list of code points. Literals of the source are ASCII and are
  written with \<open>lit\<close>.
\<close>

type_synonym str = "nat list"

definition lit :: "string \<Rightarrow> str" where
  "lit s = map of_char s"

text \<open>
  A \<^verbatim>\<open>datetime\<close> is a point on a discrete time line with microsecond resolution; it is
  modelled as the integer number of microseconds since the epoch, and
  \<^verbatim>\<open>timedelta(hours=1)\<close> as the constant \<open>hour\<close>. Telegram dates are Unix times, far from the
  ends of Python's \<^verbatim>\<open>datetime\<close> range, so the subtraction of one hour does not overflow.
\<close>

definition hour :: int where
  "hour = 3600 * 1000000"

text \<open>The sender of a message: \<^verbatim>\<open>username\<close> is optional in Telegram, \<^verbatim>\<open>first_name\<close> is not.\<close>

record user =
  username :: "str option"
  first_name :: str

text \<open>
  The fields of \<^verbatim>\<open>update.message\<close> that the handlers read. \<^verbatim>\<open>text\<close> is optional (a photo
  has none). For an update that carries \<^verbatim>\<open>message\<close>, Telegram always fills in the sender.
  An update without \<^verbatim>\<open>message\<close> makes either handler raise at its first line, before the
  store is read or written; it changes nothing and is left out.
\<close>

record message =
  chat_id :: int
  message_text :: "str option"
  date :: int
  from_user :: user

text \<open>One stored dictionary \<^verbatim>\<open>{'text': ..., 'timestamp': ..., 'username': ...}\<close>.\<close>

record entry =
  msg_text :: str
  msg_timestamp :: int
  msg_username :: str

text \<open>
  The state: \<^verbatim>\<open>message_history\<close>, together with a record of the two effects of the
  handlers on the outside: the requests made to the generation service (system content and
  user content of each call, in order) and the texts that \<^verbatim>\<open>reply_text\<close> delivered.
\<close>

record world =
  message_history :: "int \<rightharpoonup> entry list"
  requests :: "(str \<times> str) list"
  replies :: "str list"

definition initial :: world where
  "initial = \<lparr>message_history = Map.empty, requests = [], replies = []\<rparr>"

text \<open>
  What a handler can catch with \<^verbatim>\<open>except Exception\<close>: the two exceptions that reading the
  response can raise, and any other exception raised by a service. What is raised outside
  \<^verbatim>\<open>Exception\<close> (an interrupt, a cancelled task) is no fault of a service and is left out.
\<close>

datatype fault = IndexError | AttributeError | ServiceError string

text \<open>
  The two external services. \<open>create\<close> is \<^verbatim>\<open>client.chat.completions.create\<close>: given the
  system content and the user content it raises, or returns a response, of which only the
  \<^verbatim>\<open>message.content\<close> of each element of \<^verbatim>\<open>choices\<close> is read (\<open>None\<close> when absent).
  \<open>reply_text\<close> is \<^verbatim>\<open>update.message.reply_text\<close>: it delivers the text or raises.
\<close>

record services =
  create :: "str \<Rightarrow> str \<Rightarrow> fault + str option list"
  reply_text :: "str \<Rightarrow> fault + unit"

section \<open>Ingest: \<^verbatim>\<open>store_message\<close>\<close>

text \<open>The slice \<^verbatim>\<open>xs[-n:]\<close> for positive \<open>n\<close>: the last \<open>n\<close> elements, all of them when there are fewer.\<close>

definition last_n :: "nat \<Rightarrow> 'a list \<Rightarrow> 'a list" where
  "last_n n xs = drop (length xs - n) xs"

text \<open>\<^verbatim>\<open>sender.username if sender.username else sender.first_name\<close>: \<^verbatim>\<open>None\<close> and \<^verbatim>\<open>""\<close> are falsy.\<close>

definition sender_name :: "user \<Rightarrow> str" where
  "sender_name sender =
     (case username sender of
        None \<Rightarrow> first_name sender
      | Some n \<Rightarrow> if n = [] then first_name sender else n)"

text \<open>
  \<^verbatim>\<open>store_message\<close>, lines 115 to 144. A message without text (\<^verbatim>\<open>None\<close> or empty) returns
  before anything is written. Otherwise the conversation's list is created when absent, the
  new entry is appended, and the list is replaced by its entries not older than one hour
  before the date of this message, cut to the last 100.
\<close>

definition store_message :: "message \<Rightarrow> world \<Rightarrow> world" where
  "store_message m w =
     (case message_text m of
        None \<Rightarrow> w
      | Some t \<Rightarrow>
          if t = [] then w
          else
            let history = (case message_history w (chat_id m) of None \<Rightarrow> [] | Some xs \<Rightarrow> xs);
                appended = history @
                  [\<lparr>msg_text = t, msg_timestamp = date m, msg_username = sender_name (from_user m)\<rparr>];
                cutoff_time = date m - hour
            in w\<lparr>message_history := (message_history w)(chat_id m \<mapsto>
                   last_n 100 (filter (\<lambda>msg. cutoff_time \<le> msg_timestamp msg) appended))\<rparr>)"

section \<open>Trigger: \<^verbatim>\<open>summarize\<close>\<close>

text \<open>\<^verbatim>\<open>sep.join(parts)\<close>: the parts in order, with \<open>sep\<close> between neighbours.\<close>

definition join :: "str \<Rightarrow> str list \<Rightarrow> str" where
  "join sep parts =
     (case parts of
        [] \<Rightarrow> []
      | p # ps \<Rightarrow> foldl (\<lambda>acc q. acc @ sep @ q) p ps)"

text \<open>
  The f-string of line 74: \<^verbatim>\<open>[\<close> and \<^verbatim>\<open>@\<close>, the stored username, \<^verbatim>\<open>]\<close> and a space, the
  stored text.
\<close>

definition render :: "entry \<Rightarrow> str" where
  "render msg = lit ''[@'' @ msg_username msg @ lit ''] '' @ msg_text msg"

definition text_to_summarize :: "entry list \<Rightarrow> str" where
  "text_to_summarize relevant_messages = join (lit '' '') (map render relevant_messages)"

text \<open>
  \<^verbatim>\<open>str.strip()\<close> removes leading and trailing white space; \<open>isspace\<close> lists the code
  points that Python counts as white space.
\<close>

definition isspace :: "nat \<Rightarrow> bool" where
  "isspace c =
     ((9 \<le> c \<and> c \<le> 13) \<or> (28 \<le> c \<and> c \<le> 32) \<or> c = 133 \<or> c = 160 \<or> c = 5760 \<or>
      (8192 \<le> c \<and> c \<le> 8202) \<or> c = 8232 \<or> c = 8233 \<or> c = 8239 \<or> c = 8287 \<or> c = 12288)"

definition strip :: "str \<Rightarrow> str" where
  "strip s = rev (dropWhile isspace (rev (dropWhile isspace s)))"

definition system_content :: str where
  "system_content = lit ''You are a helpful assistant that summarizes text. Include usernames in the summary. Extract reminders, places to be, or events in bullet points.''"

definition user_content :: "str \<Rightarrow> str" where
  "user_content body =
     lit ''Summarize the following text in 1-2 sentences (max 130 characters, include usernames). Then list any reminders, places to be, or events in bullet points:''
     @ [10] @ body"

text \<open>\<^verbatim>\<open>response.choices[0].message.content.strip()\<close>, with the two ways it can raise.\<close>

definition first_content :: "str option list \<Rightarrow> fault + str" where
  "first_content choices =
     (case choices of
        [] \<Rightarrow> Inl IndexError
      | c # _ \<Rightarrow> (case c of None \<Rightarrow> Inl AttributeError | Some s \<Rightarrow> Inr (strip s)))"

text \<open>One call of \<^verbatim>\<open>reply_text\<close>: the text is delivered, or the call raises.\<close>

definition reply :: "services \<Rightarrow> str \<Rightarrow> world \<Rightarrow> fault + world" where
  "reply sv t w =
     (case reply_text sv t of
        Inl e \<Rightarrow> Inl e
      | Inr u \<Rightarrow> Inr (w\<lparr>replies := replies w @ [t]\<rparr>))"

text \<open>
  \<^verbatim>\<open>try: ... except Exception as e: logger.error(...)\<close> around a reply: the handler only logs,
  and the function goes on from the state in which the exception was raised.
\<close>

definition logged :: "fault + world \<Rightarrow> world \<Rightarrow> fault + world" where
  "logged r w = (case r of Inl e \<Rightarrow> Inr w | Inr w' \<Rightarrow> Inr w')"

definition failed_text :: str where
  "failed_text = lit ''Failed to summarize messages. Please try again later.''"

text \<open>
  Lines 90 to 99: the call of the generation service followed by the reading of the summary
  from the response; the raised exception, or the summary.
\<close>

definition generation_result :: "services \<Rightarrow> str \<Rightarrow> fault + str" where
  "generation_result sv body =
     (case create sv system_content (user_content body) of
        Inl e \<Rightarrow> Inl e
      | Inr choices \<Rightarrow> first_content choices)"

text \<open>The same, with the request recorded in the state, whether or not it raises.\<close>

definition generate :: "services \<Rightarrow> str \<Rightarrow> world \<Rightarrow> (fault + str) \<times> world" where
  "generate sv body w =
     (generation_result sv body,
      w\<lparr>requests := requests w @ [(system_content, user_content body)]\<rparr>)"

text \<open>
  \<^verbatim>\<open>summarize\<close>, lines 42 to 113. Only the chat id of the triggering message is read. The
  result is \<open>Inl\<close> when an exception leaves the function and \<open>Inr\<close> of the new state
  otherwise. An exception raised while the summary is sent is caught by the same handler as
  one raised by the generation call (line 106).
\<close>

definition summarize :: "services \<Rightarrow> message \<Rightarrow> world \<Rightarrow> fault + world" where
  "summarize sv m w =
     (case message_history w (chat_id m) of
        None \<Rightarrow> logged (reply sv (lit ''No messages stored for this chat yet.'') w) w
      | Some relevant_messages \<Rightarrow>
          if relevant_messages = [] then
            logged (reply sv (lit ''No messages found in chat.'') w) w
          else if length (text_to_summarize relevant_messages) < 10 then
            logged (reply sv (lit ''Not enough text to summarize.'') w) w
          else
            (case generate sv (text_to_summarize relevant_messages) w of
               (Inl e, w1) \<Rightarrow> logged (reply sv failed_text w1) w1
             | (Inr summary, w1) \<Rightarrow>
                 (case reply sv (lit ''Summary:'' @ [10] @ summary) w1 of
                    Inl e \<Rightarrow> logged (reply sv failed_text w1) w1
                  | Inr w2 \<Rightarrow> Inr w2)))"

section \<open>Runs of the program\<close>

text \<open>Appending a sequence of messages, in order.\<close>

definition appends :: "message list \<Rightarrow> world \<Rightarrow> world" where
  "appends ms w = fold store_message ms w"

text \<open>
  The states the program can be in: it starts with an empty dictionary, and each handler
  call, with whatever message and whatever services, leads from one state to the next.
\<close>

inductive reachable :: "world \<Rightarrow> bool" where
  start: "reachable initial"
| ingest: "reachable w \<Longrightarrow> reachable (store_message m w)"
| trigger: "reachable w \<Longrightarrow> summarize sv m w = Inr w' \<Longrightarrow> reachable w'"

section \<open>Notions used in the statements\<close>

text \<open>A message that \<^verbatim>\<open>store_message\<close> appends: its text is neither \<^verbatim>\<open>None\<close> nor empty.\<close>

definition has_text :: "message \<Rightarrow> bool" where
  "has_text m = (case message_text m of None \<Rightarrow> False | Some t \<Rightarrow> t \<noteq> [])"

text \<open>The entry that \<^verbatim>\<open>store_message\<close> builds from such a message (lines 131 to 135).\<close>

definition entry_of :: "message \<Rightarrow> entry" where
  "entry_of m =
     \<lparr>msg_text = (case message_text m of None \<Rightarrow> [] | Some t \<Rightarrow> t),
      msg_timestamp = date m,
      msg_username = sender_name (from_user m)\<rparr>"

text \<open>The retained sequence of a conversation: empty for a conversation never seen.\<close>

definition retained :: "world \<Rightarrow> int \<Rightarrow> entry list" where
  "retained w c = (case message_history w c of None \<Rightarrow> [] | Some xs \<Rightarrow> xs)"

text \<open>The effect of a reply whose failure is only logged.\<close>

definition answered :: "services \<Rightarrow> str \<Rightarrow> world \<Rightarrow> world" where
  "answered sv t w =
     (case reply_text sv t of Inl e \<Rightarrow> w | Inr u \<Rightarrow> w\<lparr>replies := replies w @ [t]\<rparr>)"

text \<open>
  The outcome of a trigger that ends in one reply and never calls the generation service: no
  exception leaves the handler, the history and the recorded requests are as before, and the
  text is added to the delivered replies unless \<^verbatim>\<open>reply_text\<close> raised.
\<close>

definition answers_only :: "services \<Rightarrow> str \<Rightarrow> world \<Rightarrow> fault + world \<Rightarrow> bool" where
  "answers_only sv t w r =
     (case r of
        Inl e \<Rightarrow> False
      | Inr w' \<Rightarrow>
          message_history w' = message_history w \<and> requests w' = requests w \<and>
          replies w' = (case reply_text sv t of Inl e \<Rightarrow> replies w | Inr u \<Rightarrow> replies w @ [t]))"

subsection \<open>The eviction policy and the prompt body, as the specification words them\<close>

text \<open>
  First step of the policy: drop every message whose timestamp is older than the latest
  timestamp minus the retention window.
\<close>

fun spec_drop_expired :: "int \<Rightarrow> entry list \<Rightarrow> entry list" where
  "spec_drop_expired latest [] = []"
| "spec_drop_expired latest (x # xs) =
     (if msg_timestamp x < latest - hour then spec_drop_expired latest xs
      else x # spec_drop_expired latest xs)"

text \<open>Second step: while more than \<open>n\<close> remain, drop the head.\<close>

fun spec_cap :: "nat \<Rightarrow> 'a list \<Rightarrow> 'a list" where
  "spec_cap n [] = []"
| "spec_cap n (x # xs) = (if n < length (x # xs) then spec_cap n xs else x # xs)"

text \<open>
  The prompt body: each message as \<^verbatim>\<open>[@author] text\<close> (the code points of \<^verbatim>\<open>[\<close>,
  \<^verbatim>\<open>@\<close>, \<^verbatim>\<open>]\<close> and the space are 91, 64, 93 and 32), in order, one space between
  neighbours.
\<close>

definition spec_render :: "entry \<Rightarrow> str" where
  "spec_render e = [91, 64] @ msg_username e @ [93, 32] @ msg_text e"

fun spec_build :: "entry list \<Rightarrow> str" where
  "spec_build [] = []"
| "spec_build [e] = spec_render e"
| "spec_build (e # e' # es) = spec_render e @ [32] @ spec_build (e' # es)"

section \<open>Example inputs\<close>

text \<open>
  Concrete users, messages and services at which the theorems below are evaluated. Dates are
  microseconds since the epoch; \<open>later\<close> is two hours after \<open>lunch\<close>, and \<open>burst\<close> is 101
  messages one second apart.
\<close>

definition alice :: user where
  "alice = \<lparr>username = Some (lit ''alice''), first_name = lit ''Alice''\<rparr>"

definition bob :: user where
  "bob = \<lparr>username = None, first_name = lit ''bob''\<rparr>"

definition lunch :: message where
  "lunch = \<lparr>chat_id = 7, message_text = Some (lit ''lunch at noon''),
            date = 1700000000000000, from_user = alice\<rparr>"

definition ok_message :: message where
  "ok_message = \<lparr>chat_id = 7, message_text = Some (lit ''ok''),
            date = 1700000060000000, from_user = bob\<rparr>"

definition later :: message where
  "later = \<lparr>chat_id = 7, message_text = Some (lit ''see you there''),
            date = 1700007200000000, from_user = alice\<rparr>"

definition burst :: "message list" where
  "burst = map (\<lambda>i. \<lparr>chat_id = 7, message_text = Some (lit ''hi''),
                      date = 1700000000000000 + int i * 1000000, from_user = alice\<rparr>) [0..<101]"

text \<open>
  A generation service that returns one choice with the given content, one that raises, and
  the \<^verbatim>\<open>/summarize\<close> command sent to chat 7 at a given date. Replies are delivered by both.
\<close>

definition working :: "str \<Rightarrow> services" where
  "working s = \<lparr>create = (\<lambda>sys usr. Inr [Some s]), reply_text = (\<lambda>t. Inr ())\<rparr>"

definition failing :: services where
  "failing = \<lparr>create = (\<lambda>sys usr. Inl (ServiceError ''quota'')), reply_text = (\<lambda>t. Inr ())\<rparr>"

definition command :: "int \<Rightarrow> message" where
  "command d = \<lparr>chat_id = 7, message_text = Some (lit ''/summarize''), date = d, from_user = alice\<rparr>"

section \<open>Facts about the slice and the store\<close>

lemma last_n_length: "length (last_n n xs) \<le> n"
  by (simp add: last_n_def)

lemma last_n_subset: "set (last_n n xs) \<subseteq> set xs"
  by (simp add: last_n_def set_drop_subset)

lemma last_n_snoc_ne: "0 < n \<Longrightarrow> last_n n (xs @ [x]) \<noteq> []"
  by (simp add: last_n_def)

lemma last_n_snoc_last: "0 < n \<Longrightarrow> last (last_n n (xs @ [x])) = x"
  by (simp add: last_n_def)

lemma last_n_all: "length xs \<le> n \<Longrightarrow> last_n n xs = xs"
  by (simp add: last_n_def)

lemma last_n_last_n_snoc: "0 < n \<Longrightarrow> last_n n (last_n n xs @ [x]) = last_n n (xs @ [x])"
  by (cases "length xs \<le> n") (auto simp: last_n_def Suc_diff_le)

lemma last_n_append: "last_n n (old @ xs) = last_n (n - length xs) old @ last_n n xs"
  by (cases "length xs \<le> n") (simp_all add: last_n_def)

lemma last_n_zero: "last_n 0 xs = []"
  by (simp add: last_n_def)

lemma last_n_101:
  assumes "length xs = 101"
  shows "last_n 100 xs = tl xs"
proof -
  have "last_n 100 xs = drop 1 xs" using assms by (simp add: last_n_def)
  then show ?thesis by (simp add: drop_Suc)
qed

lemma filter_all: "\<forall>x\<in>set xs. P x \<Longrightarrow> filter P xs = xs"
  by (simp add: filter_id_conv)

lemma store_message_text:
  "has_text m \<Longrightarrow>
   message_history (store_message m w) (chat_id m) =
     Some (last_n 100 (filter (\<lambda>e. date m - hour \<le> msg_timestamp e) (retained w (chat_id m) @ [entry_of m])))"
  by (auto simp: has_text_def store_message_def retained_def entry_of_def Let_def split: option.splits)

lemma store_message_no_text: "\<not> has_text m \<Longrightarrow> store_message m w = w"
  by (auto simp: has_text_def store_message_def split: option.splits)

lemma store_message_other:
  "c \<noteq> chat_id m \<Longrightarrow> message_history (store_message m w) c = message_history w c"
  by (auto simp: store_message_def Let_def split: option.splits)

lemma spec_drop_expired_filter:
  "spec_drop_expired latest xs = filter (\<lambda>e. latest - hour \<le> msg_timestamp e) xs"
  by (induction xs) auto

lemma spec_cap_last_n: "spec_cap n xs = last_n n xs"
  by (induction xs) (auto simp: last_n_def Suc_diff_le)

lemma appends_snoc: "appends (ms @ [m]) w = store_message m (appends ms w)"
  by (simp add: appends_def)

lemma initial_history: "message_history initial c = None"
  by (simp add: initial_def)

lemma retained_absent: "message_history w c = None \<Longrightarrow> retained w c = []"
  by (simp add: retained_def)

lemma retained_present: "message_history w c = Some xs \<Longrightarrow> retained w c = xs"
  by (simp add: retained_def)

lemma timestamp_entry_of: "msg_timestamp (entry_of m) = date m"
  by (simp add: entry_of_def)

lemma retained_store:
  "has_text m \<Longrightarrow>
   retained (store_message m w) (chat_id m) =
     last_n 100 (filter (\<lambda>e. date m - hour \<le> msg_timestamp e) (retained w (chat_id m) @ [entry_of m]))"
  by (simp add: retained_def [of "store_message m w"] store_message_text)

lemma retained_store_length: "has_text m \<Longrightarrow> length (retained (store_message m w) (chat_id m)) \<le> 100"
  by (simp add: retained_store last_n_length)

lemma retained_store_fresh:
  assumes "has_text m" "e \<in> set (retained (store_message m w) (chat_id m))"
  shows "date m - hour \<le> msg_timestamp e"
proof -
  let ?kept = "filter (\<lambda>e. date m - hour \<le> msg_timestamp e) (retained w (chat_id m) @ [entry_of m])"
  have "retained (store_message m w) (chat_id m) = last_n 100 ?kept"
    using assms(1) by (rule retained_store)
  with assms(2) have "e \<in> set (last_n 100 ?kept)" by (simp only:)
  moreover have "set (last_n 100 ?kept) \<subseteq> set ?kept" by (rule last_n_subset)
  ultimately have "e \<in> set ?kept" by (rule rev_subsetD)
  then show ?thesis by (simp only: set_filter mem_Collect_eq)
qed

lemma retained_store_last:
  assumes "has_text m"
  shows "retained (store_message m w) (chat_id m) \<noteq> [] \<and> last (retained (store_message m w) (chat_id m)) = entry_of m"
proof -
  have "hour \<ge> 0" by (simp add: hour_def)
  then have keep: "date m - hour \<le> msg_timestamp (entry_of m)" by (simp add: entry_of_def)
  have "filter (\<lambda>e. date m - hour \<le> msg_timestamp e) (retained w (chat_id m) @ [entry_of m])
        = filter (\<lambda>e. date m - hour \<le> msg_timestamp e) (retained w (chat_id m)) @ [entry_of m]"
    using keep by simp
  then show ?thesis using assms by (simp add: retained_store last_n_snoc_ne last_n_snoc_last)
qed

lemma store_message_present:
  assumes "has_text m"
  shows "message_history (store_message m w) (chat_id m) = Some (retained (store_message m w) (chat_id m))"
  using assms by (simp add: retained_def store_message_text)

lemma max_date_sorted:
  assumes "ms \<noteq> []" "sorted (map date ms)"
  shows "Max (date ` set ms) = date (last ms)"
proof (rule Max_eqI)
  show "finite (date ` set ms)" by simp
  show "date (last ms) \<in> date ` set ms" using assms(1) by simp
  fix y assume y: "y \<in> date ` set ms"
  from assms(1) obtain ms' m where ms: "ms = ms' @ [m]" by (metis rev_exhaust)
  from y have "y \<in> set (map date ms') \<or> y = date m" by (auto simp: ms)
  moreover have "\<forall>x\<in>set (map date ms'). x \<le> date m"
    using assms(2) by (simp add: ms sorted_append)
  ultimately show "y \<le> date (last ms)" by (auto simp: ms)
qed

lemma appends_window_any:
  assumes "ms \<noteq> []"
      and "\<forall>m\<in>set ms. chat_id m = c \<and> has_text m"
      and "\<forall>a\<in>set ms. \<forall>b\<in>set ms. date b - hour \<le> date a"
  shows "\<exists>old. retained (appends ms w) c = last_n 100 (old @ map entry_of ms)"
  using assms
proof (induction ms rule: rev_nonempty_induct)
  case (single m)
  then have m: "chat_id m = c" "has_text m" by auto
  let ?P = "\<lambda>e. date m - hour \<le> msg_timestamp e"
  have new_fresh: "?P (entry_of m)" by (simp add: timestamp_entry_of hour_def)
  have "retained (appends [m] w) c = retained (store_message m w) (chat_id m)"
    by (simp add: appends_def m(1))
  also have "\<dots> = last_n 100 (filter ?P (retained w (chat_id m) @ [entry_of m]))"
    using m(2) by (rule retained_store)
  also have "\<dots> = last_n 100 (filter ?P (retained w (chat_id m)) @ map entry_of [m])"
    using new_fresh by simp
  finally show ?case by blast
next
  case (snoc m ms)
  from snoc.prems have m: "chat_id m = c" "has_text m" by auto
  let ?P = "\<lambda>e. date m - hour \<le> msg_timestamp e"
  let ?xs = "map entry_of ms"
  have "\<exists>old. retained (appends ms w) c = last_n 100 (old @ ?xs)"
    using snoc.prems by (intro snoc.IH) auto
  then obtain old where ih: "retained (appends ms w) c = last_n 100 (old @ ?xs)" by blast
  have xs_fresh: "\<forall>e\<in>set ?xs. ?P e"
  proof
    fix e assume "e \<in> set ?xs"
    then obtain a where a: "a \<in> set ms" "e = entry_of a" by auto
    from snoc.prems(2) a(1) have "date m - hour \<le> date a" by simp
    then show "?P e" by (simp add: a(2) timestamp_entry_of)
  qed
  have tail_fresh: "\<forall>e\<in>set (last_n 100 ?xs). ?P e"
    using xs_fresh last_n_subset [of 100 ?xs] by blast
  have new_fresh: "?P (entry_of m)" by (simp add: timestamp_entry_of hour_def)
  define old' where "old' = filter ?P (last_n (100 - length ?xs) old)"
  have kept: "filter ?P (last_n 100 (old @ ?xs) @ [entry_of m]) = old' @ last_n 100 ?xs @ [entry_of m]"
    using new_fresh filter_all [OF tail_fresh] by (simp add: last_n_append [of 100 old] old'_def)
  have same: "last_n 100 (old' @ last_n 100 ?xs @ [entry_of m]) = last_n 100 (old' @ ?xs @ [entry_of m])"
  proof (cases "length ?xs \<le> 100")
    case True
    then show ?thesis by (simp add: last_n_all)
  next
    case False
    then have "old' = []" by (simp add: old'_def last_n_zero)
    then show ?thesis by (simp add: last_n_last_n_snoc)
  qed
  have "retained (appends (ms @ [m]) w) c = retained (store_message m (appends ms w)) (chat_id m)"
    by (simp only: appends_snoc m(1))
  also have "\<dots> = last_n 100 (filter ?P (retained (appends ms w) (chat_id m) @ [entry_of m]))"
    using m(2) by (rule retained_store)
  also have "\<dots> = last_n 100 (old' @ last_n 100 ?xs @ [entry_of m])"
    by (simp only: m(1) ih kept)
  also have "\<dots> = last_n 100 (old' @ map entry_of (ms @ [m]))"
    by (simp add: same)
  finally show ?case by blast
qed


section \<open>Facts about the trigger\<close>

text \<open>
  Each path through \<^verbatim>\<open>summarize\<close>: the unknown conversation, the empty list, the short body,
  the generation call that raises, the summary that is delivered, and the summary whose
  delivery raises.
\<close>

lemma logged_reply: "logged (reply sv t w) w = Inr (answered sv t w)"
  by (simp add: logged_def reply_def answered_def split: sum.splits)

lemma answered_history: "message_history (answered sv t w) = message_history w"
  by (simp add: answered_def split: sum.splits)

lemma answered_requests: "requests (answered sv t w) = requests w"
  by (simp add: answered_def split: sum.splits)

lemma answered_replies:
  "replies (answered sv t w) = (case reply_text sv t of Inl e \<Rightarrow> replies w | Inr u \<Rightarrow> replies w @ [t])"
  by (simp add: answered_def split: sum.splits)

lemma answers_only_answered: "answers_only sv t w (Inr (answered sv t w))"
  by (simp add: answers_only_def answered_history answered_requests answered_replies)

lemma summarize_unknown:
  "message_history w (chat_id m) = None \<Longrightarrow>
   summarize sv m w = Inr (answered sv (lit ''No messages stored for this chat yet.'') w)"
  by (simp add: summarize_def logged_reply)

lemma summarize_empty:
  "message_history w (chat_id m) = Some [] \<Longrightarrow>
   summarize sv m w = Inr (answered sv (lit ''No messages found in chat.'') w)"
  by (simp add: summarize_def logged_reply)

lemma summarize_short:
  "message_history w (chat_id m) = Some msgs \<Longrightarrow> msgs \<noteq> [] \<Longrightarrow>
   length (text_to_summarize msgs) < 10 \<Longrightarrow>
   summarize sv m w = Inr (answered sv (lit ''Not enough text to summarize.'') w)"
  by (simp add: summarize_def logged_reply)

lemma summarize_fault:
  "message_history w (chat_id m) = Some msgs \<Longrightarrow> msgs \<noteq> [] \<Longrightarrow>
   10 \<le> length (text_to_summarize msgs) \<Longrightarrow>
   generation_result sv (text_to_summarize msgs) = Inl e \<Longrightarrow>
   summarize sv m w =
     Inr (answered sv failed_text
       (w\<lparr>requests := requests w @ [(system_content, user_content (text_to_summarize msgs))]\<rparr>))"
  by (simp add: summarize_def generate_def logged_reply)

lemma summarize_success:
  "message_history w (chat_id m) = Some msgs \<Longrightarrow> msgs \<noteq> [] \<Longrightarrow>
   10 \<le> length (text_to_summarize msgs) \<Longrightarrow>
   generation_result sv (text_to_summarize msgs) = Inr s \<Longrightarrow>
   reply_text sv (lit ''Summary:'' @ [10] @ s) = Inr u \<Longrightarrow>
   summarize sv m w =
     Inr (w\<lparr>requests := requests w @ [(system_content, user_content (text_to_summarize msgs))],
            replies := replies w @ [lit ''Summary:'' @ [10] @ s]\<rparr>)"
  by (simp add: summarize_def generate_def reply_def)

lemma summarize_undelivered:
  "message_history w (chat_id m) = Some msgs \<Longrightarrow> msgs \<noteq> [] \<Longrightarrow>
   10 \<le> length (text_to_summarize msgs) \<Longrightarrow>
   generation_result sv (text_to_summarize msgs) = Inr s \<Longrightarrow>
   reply_text sv (lit ''Summary:'' @ [10] @ s) = Inl e \<Longrightarrow>
   summarize sv m w =
     Inr (answered sv failed_text
       (w\<lparr>requests := requests w @ [(system_content, user_content (text_to_summarize msgs))]\<rparr>))"
  by (simp add: summarize_def generate_def reply_def logged_def answered_def split: sum.splits)

lemma summarize_cases:
  obtains (unknown) "message_history w (chat_id m) = None"
  | (empty) "message_history w (chat_id m) = Some []"
  | (short) msgs where "message_history w (chat_id m) = Some msgs" "msgs \<noteq> []"
      "length (text_to_summarize msgs) < 10"
  | (fault) msgs e where "message_history w (chat_id m) = Some msgs" "msgs \<noteq> []"
      "10 \<le> length (text_to_summarize msgs)" "generation_result sv (text_to_summarize msgs) = Inl e"
  | (success) msgs s u where "message_history w (chat_id m) = Some msgs" "msgs \<noteq> []"
      "10 \<le> length (text_to_summarize msgs)" "generation_result sv (text_to_summarize msgs) = Inr s"
      "reply_text sv (lit ''Summary:'' @ [10] @ s) = Inr u"
  | (undelivered) msgs s e where "message_history w (chat_id m) = Some msgs" "msgs \<noteq> []"
      "10 \<le> length (text_to_summarize msgs)" "generation_result sv (text_to_summarize msgs) = Inr s"
      "reply_text sv (lit ''Summary:'' @ [10] @ s) = Inl e"
proof (cases "message_history w (chat_id m)")
  case None
  then show ?thesis by (rule unknown)
next
  case (Some msgs)
  show ?thesis
  proof (cases "msgs = []")
    case True
    with Some show ?thesis by (intro empty) simp
  next
    case ne: False
    show ?thesis
    proof (cases "length (text_to_summarize msgs) < 10")
      case True
      with Some ne show ?thesis by (intro short)
    next
      case False
      then have long: "10 \<le> length (text_to_summarize msgs)" by simp
      show ?thesis
      proof (cases "generation_result sv (text_to_summarize msgs)")
        case (Inl e)
        with Some ne long show ?thesis by (intro fault)
      next
        case (Inr s)
        show ?thesis
        proof (cases "reply_text sv (lit ''Summary:'' @ [10] @ s)")
          case (Inl e)
          with Some ne long Inr show ?thesis by (intro undelivered)
        next
          case inr: (Inr u)
          with Some ne long Inr show ?thesis by (intro success)
        qed
      qed
    qed
  qed
qed

lemma summarize_total: "\<exists>w'. summarize sv m w = Inr w'"
proof (rule summarize_cases [where w = w and m = m and sv = sv])
qed (simp_all add: summarize_unknown summarize_empty summarize_short summarize_fault
        summarize_success summarize_undelivered)

lemma summarize_history:
  assumes "summarize sv m w = Inr w'"
  shows "message_history w' = message_history w"
proof (rule summarize_cases [where w = w and m = m and sv = sv])
qed (use assms in \<open>auto simp: summarize_unknown summarize_empty summarize_short summarize_fault
        summarize_success summarize_undelivered answered_history\<close>)


text \<open>
  The reply that no messages were found differs from every other reply of the trigger, and
  the trigger reads nothing of the triggering message but its chat id.
\<close>

lemma not_found_differs:
  "lit ''Not enough text to summarize.'' \<noteq> lit ''No messages found in chat.''"
  "failed_text \<noteq> lit ''No messages found in chat.''"
  "lit ''Summary:'' @ [10] @ s \<noteq> lit ''No messages found in chat.''"
  "lit ''Summary:'' @ 10 # s \<noteq> lit ''No messages found in chat.''"
  by (simp_all add: lit_def failed_text_def)

lemma answered_not_found:
  assumes "t \<noteq> lit ''No messages found in chat.''" and "replies w0 = replies w"
  shows "replies (answered sv t w0) \<noteq> replies w @ [lit ''No messages found in chat.'']"
  using assms by (simp add: answered_replies split: sum.splits)

lemma summarize_ignores_date: "summarize sv (m\<lparr>date := d\<rparr>) w = summarize sv m w"
  by (simp add: summarize_def)

text \<open>
  The invariant of the store: no handler call leaves an empty list under a key. Ingest puts
  the new entry last and the slice keeps it; the trigger does not write to the store.
\<close>

lemma reachable_nonempty:
  "reachable w \<Longrightarrow> message_history w c = Some xs \<Longrightarrow> xs \<noteq> []"
proof (induction arbitrary: c xs rule: reachable.induct)
  case start
  then show ?case by (simp add: initial_history)
next
  case (ingest w m)
  show ?case
  proof (cases "has_text m")
    case False
    with ingest show ?thesis by (simp add: store_message_no_text)
  next
    case True
    show ?thesis
    proof (cases "c = chat_id m")
      case False
      with ingest show ?thesis by (simp add: store_message_other)
    next
      case same: True
      from ingest.prems same have "retained (store_message m w) (chat_id m) = xs"
        by (simp add: retained_present)
      with retained_store_last [OF True, of w] show ?thesis by simp
    qed
  qed
next
  case (trigger w sv m w')
  from trigger.hyps(2) have "message_history w' = message_history w"
    by (rule summarize_history)
  with trigger.prems trigger.IH show ?case by simp
qed


text \<open>The prompt body of the source and the one worded by the specification agree.\<close>

lemma join_foldl:
  "foldl (\<lambda>acc q. acc @ sep @ q) p ps = p @ concat (map (\<lambda>q. sep @ q) ps)"
  by (induction ps arbitrary: p) simp_all

lemma join_cons: "join sep (p # ps) = p @ concat (map (\<lambda>q. sep @ q) ps)"
  by (simp add: join_def join_foldl)

lemma render_spec: "render e = spec_render e"
  by (simp add: render_def spec_render_def lit_def)

lemma spec_build_cons:
  "spec_build (e # es) = spec_render e @ concat (map (\<lambda>x. [32] @ spec_render x) es)"
  by (induction es arbitrary: e) simp_all

lemma text_to_summarize_spec: "text_to_summarize msgs = spec_build msgs"
proof (cases msgs)
  case Nil
  then show ?thesis by (simp add: text_to_summarize_def join_def)
next
  case (Cons e es)
  have sp: "lit '' '' = [32]" by (simp add: lit_def)
  have "text_to_summarize (e # es) =
      render e @ concat (map (\<lambda>q. lit '' '' @ q) (map render es))"
    by (simp only: text_to_summarize_def list.map join_cons)
  also have "\<dots> = spec_render e @ concat (map (\<lambda>x. [32] @ spec_render x) es)"
    by (simp add: sp render_spec comp_def)
  also have "\<dots> = spec_build (e # es)" by (simp only: spec_build_cons)
  finally show ?thesis by (simp only: Cons)
qed


section \<open>Facts about the examples\<close>

lemma has_text_lunch: "has_text lunch"
  by (simp add: has_text_def lunch_def lit_def)

lemma has_text_ok: "has_text ok_message"
  by (simp add: has_text_def ok_message_def lit_def)

lemma has_text_later: "has_text later"
  by (simp add: has_text_def later_def lit_def)

lemma chat_ids: "chat_id lunch = 7" "chat_id ok_message = 7" "chat_id later = 7"
  by (simp_all add: lunch_def ok_message_def later_def)

lemma dates: "date lunch = 1700000000000000" "date ok_message = 1700000060000000"
  "date later = 1700007200000000"
  by (simp_all add: lunch_def ok_message_def later_def)

lemma burst_length: "length burst = 101"
  by (simp add: burst_def)

lemma burst_members: "\<forall>a\<in>set burst. chat_id a = 7 \<and> has_text a"
  by (auto simp: burst_def has_text_def lit_def)

lemma burst_window: "\<forall>a\<in>set burst. \<forall>b\<in>set burst. date b - hour \<le> date a"
  by (auto simp: burst_def hour_def)

lemma stored_lunch: "message_history (store_message lunch initial) 7 = Some [entry_of lunch]"
  using store_message_text [OF has_text_lunch, of initial]
  by (simp add: chat_ids retained_absent initial_history timestamp_entry_of hour_def last_n_def)

lemma stored_ok: "message_history (store_message ok_message initial) 7 = Some [entry_of ok_message]"
  using store_message_text [OF has_text_ok, of initial]
  by (simp add: chat_ids retained_absent initial_history timestamp_entry_of hour_def last_n_def)

lemma reachable_lunch: "reachable (store_message lunch initial)"
  by (intro reachable.ingest reachable.start)

lemma reachable_ok: "reachable (store_message ok_message initial)"
  by (intro reachable.ingest reachable.start)

lemma fresh_store: "requests (store_message m initial) = []" "replies (store_message m initial) = []"
  by (auto simp: store_message_def initial_def Let_def split: option.splits)

lemma length_lit: "length (lit s) = length s"
  by (simp add: lit_def)

lemma body_lunch: "text_to_summarize [entry_of lunch] = lit ''[@alice] lunch at noon''"
  by (simp add: text_to_summarize_def join_def render_def entry_of_def lunch_def alice_def
      sender_name_def lit_def)

lemma body_ok: "text_to_summarize [entry_of ok_message] = lit ''[@bob] ok''"
  by (simp add: text_to_summarize_def join_def render_def entry_of_def ok_message_def bob_def
      sender_name_def lit_def)

lemma chat_id_command: "chat_id (command d) = 7"
  by (simp add: command_def)

lemma working_result: "generation_result (working s) body = Inr (strip s)"
  by (simp add: generation_result_def working_def first_content_def)

lemma working_reply: "reply_text (working s) t = Inr ()"
  by (simp add: working_def)

lemma working_create: "create (working s) a b = Inr (Some s # [])"
  by (simp add: working_def)

lemma failing_result: "generation_result failing body = Inl (ServiceError ''quota'')"
  by (simp add: generation_result_def failing_def)

lemma failing_reply: "reply_text failing t = Inr ()"
  by (simp add: failing_def)

lemma strip_ok: "strip (lit ''ok'') = lit ''ok''"
  by (simp add: strip_def isspace_def lit_def)

lemma strip_padded: "strip (lit '' ok '') = lit ''ok''"
  by (simp add: strip_def isspace_def lit_def)

lemma summarize_lunch:
  "summarize (working (lit ''ok'')) (command d) (store_message lunch initial) =
     Inr ((store_message lunch initial)
        \<lparr>requests := requests (store_message lunch initial) @
            [(system_content, user_content (text_to_summarize [entry_of lunch]))],
         replies := replies (store_message lunch initial) @ [lit ''Summary:'' @ [10] @ lit ''ok'']\<rparr>)"
proof (rule summarize_success)
  show "message_history (store_message lunch initial) (chat_id (command d)) = Some [entry_of lunch]"
    by (simp only: chat_id_command stored_lunch)
  show "[entry_of lunch] \<noteq> []" by simp
  show "10 \<le> length (text_to_summarize [entry_of lunch])"
    by (simp add: body_lunch length_lit)
  show "generation_result (working (lit ''ok'')) (text_to_summarize [entry_of lunch]) = Inr (lit ''ok'')"
    by (simp only: working_result strip_ok)
  show "reply_text (working (lit ''ok'')) (lit ''Summary:'' @ [10] @ lit ''ok'') = Inr ()"
    by (rule working_reply)
qed

lemma spec_build_example:
  "spec_build [entry_of lunch, entry_of ok_message] = lit ''[@alice] lunch at noon [@bob] ok''"
  by (simp add: spec_render_def entry_of_def lunch_def ok_message_def alice_def bob_def
      sender_name_def lit_def)


section \<open>The retention bounds (C1)\<close>

text \<open>
  C1, as the code has it. After each append of a run of appends to one conversation \<open>c\<close>
  (that is, for every non-empty run \<open>ms\<close> of messages with text for \<open>c\<close>, from any state),
  the retained sequence has at most 100 entries, and every retained timestamp is at least
  the date of the message appended last minus one hour. When the messages arrive in
  non-decreasing date order, that date is the maximum appended so far, and the bound of the
  claim holds.
\<close>

theorem retention_bounds:
  assumes "ms \<noteq> []" and "\<forall>m\<in>set ms. chat_id m = c \<and> has_text m"
  shows "length (retained (appends ms w) c) \<le> 100 \<and>
         (\<forall>e\<in>set (retained (appends ms w) c). date (last ms) - hour \<le> msg_timestamp e) \<and>
         (sorted (map date ms) \<longrightarrow>
            (\<forall>e\<in>set (retained (appends ms w) c). Max (date ` set ms) - hour \<le> msg_timestamp e))"
proof -
  from assms(1) obtain ms' m where ms: "ms = ms' @ [m]" by (metis rev_exhaust)
  with assms(2) have m: "chat_id m = c" "has_text m" by auto
  have step: "appends ms w = store_message m (appends ms' w)" by (simp add: ms appends_snoc)
  have lst: "last ms = m" by (simp add: ms)
  have len: "length (retained (appends ms w) c) \<le> 100"
    using retained_store_length [OF m(2), of "appends ms' w"] by (simp only: step m(1))
  have fresh: "\<forall>e\<in>set (retained (appends ms w) c). date (last ms) - hour \<le> msg_timestamp e"
  proof
    fix e assume "e \<in> set (retained (appends ms w) c)"
    then have "e \<in> set (retained (store_message m (appends ms' w)) (chat_id m))"
      by (simp only: step m(1))
    from retained_store_fresh [OF m(2) this] show "date (last ms) - hour \<le> msg_timestamp e"
      by (simp only: lst)
  qed
  have fresh_max: "sorted (map date ms) \<longrightarrow>
      (\<forall>e\<in>set (retained (appends ms w) c). Max (date ` set ms) - hour \<le> msg_timestamp e)"
  proof
    assume "sorted (map date ms)"
    from max_date_sorted [OF assms(1) this] fresh
    show "\<forall>e\<in>set (retained (appends ms w) c). Max (date ` set ms) - hour \<le> msg_timestamp e"
      by (simp only:)
  qed
  from len fresh fresh_max show ?thesis by (intro conjI)
qed

theorem retention_bounds_witness:
  "length (retained (appends [lunch, ok_message] initial) 7) \<le> 100 \<and>
   list_all (\<lambda>e. date ok_message - hour \<le> msg_timestamp e)
     (retained (appends [lunch, ok_message] initial) 7) \<and>
   sorted (map date [lunch, ok_message]) \<and>
   list_all (\<lambda>e. Max (date ` set [lunch, ok_message]) - hour \<le> msg_timestamp e)
     (retained (appends [lunch, ok_message] initial) 7)"
proof -
  have a: "[lunch, ok_message] \<noteq> []" by simp
  have b: "\<forall>m\<in>set [lunch, ok_message]. chat_id m = 7 \<and> has_text m"
    by (simp add: chat_ids has_text_lunch has_text_ok)
  have s: "sorted (map date [lunch, ok_message])" by (simp add: dates)
  have l: "last [lunch, ok_message] = ok_message" by simp
  from retention_bounds [OF a b, of initial] s show ?thesis
    unfolding list_all_iff l by blast
qed


text \<open>
  The bound against the maximum timestamp appended so far does not hold for every run:
  when \<open>lunch\<close> arrives after \<open>later\<close>, which is dated two hours after it, the cutoff is
  taken from the date of \<open>lunch\<close>, both entries are retained, and the entry of \<open>lunch\<close> is
  more than one hour older than the maximum.
\<close>

lemma appends_later_lunch:
  "retained (appends [later, lunch] initial) 7 = [entry_of later, entry_of lunch]"
proof -
  have "retained (store_message later initial) 7 = [entry_of later]"
    using retained_store [OF has_text_later, of initial]
    by (simp add: chat_ids retained_absent initial_history timestamp_entry_of hour_def last_n_def)
  then have "retained (store_message lunch (store_message later initial)) 7
      = [entry_of later, entry_of lunch]"
    using retained_store [OF has_text_lunch, of "store_message later initial"]
    by (simp add: chat_ids timestamp_entry_of dates hour_def last_n_def)
  then show ?thesis by (simp add: appends_def)
qed

theorem retention_max_counterexample:
  "retained (appends [later, lunch] initial) 7 = [entry_of later, entry_of lunch] \<and>
   msg_timestamp (entry_of lunch) < max (date later) (date lunch) - hour"
  by (simp add: appends_later_lunch timestamp_entry_of dates hour_def)


section \<open>The order of the two eviction steps (C2)\<close>

text \<open>
  C2. An append leaves, for its conversation, the previous sequence with the new entry at
  the tail, from which first every entry older than the date of the new message minus one
  hour is dropped, and then heads are dropped while more than 100 entries remain. In
  particular, after 101 messages with text are appended to one conversation, all of them
  within one hour of each other, exactly 100 entries are retained, they are the entries of
  the 2nd to the 101st message, and the first of them is the entry of the 2nd.
\<close>

theorem eviction_two_steps:
  "(has_text m \<longrightarrow>
      retained (store_message m w) (chat_id m) =
        spec_cap 100 (spec_drop_expired (date m) (retained w (chat_id m) @ [entry_of m]))) \<and>
   (length ms = 101 \<and> (\<forall>a\<in>set ms. chat_id a = c \<and> has_text a) \<and>
    (\<forall>a\<in>set ms. \<forall>b\<in>set ms. date b - hour \<le> date a) \<longrightarrow>
      length (retained (appends ms w0) c) = 100 \<and>
      hd (retained (appends ms w0) c) = entry_of (ms ! 1) \<and>
      retained (appends ms w0) c = map entry_of (tl ms))"
proof (intro conjI impI)
  assume "has_text m"
  then show "retained (store_message m w) (chat_id m) =
        spec_cap 100 (spec_drop_expired (date m) (retained w (chat_id m) @ [entry_of m]))"
    by (simp only: retained_store spec_cap_last_n spec_drop_expired_filter)
next
  assume h: "length ms = 101 \<and> (\<forall>a\<in>set ms. chat_id a = c \<and> has_text a) \<and>
    (\<forall>a\<in>set ms. \<forall>b\<in>set ms. date b - hour \<le> date a)"
  have len: "length ms = 101" using h by (rule conjunct1)
  have h1: "ms \<noteq> []" using len by auto
  have h2: "\<forall>a\<in>set ms. chat_id a = c \<and> has_text a" using h by blast
  have h3: "\<forall>a\<in>set ms. \<forall>b\<in>set ms. date b - hour \<le> date a" using h by blast
  from appends_window_any [OF h1 h2 h3, of w0]
  obtain old where "retained (appends ms w0) c = last_n 100 (old @ map entry_of ms)" by blast
  also have "\<dots> = last_n 100 (map entry_of ms)"
    using len by (simp add: last_n_append [of 100 old] last_n_zero)
  also have "\<dots> = tl (map entry_of ms)"
    using len by (intro last_n_101) simp
  finally have eq: "retained (appends ms w0) c = map entry_of (tl ms)"
    by (simp add: map_tl)
  have tl_drop: "tl ms = drop 1 ms" by (simp add: drop_Suc)
  have ne: "drop 1 ms \<noteq> []" using len by simp
  have "hd (map entry_of (drop 1 ms)) = entry_of (hd (drop 1 ms))"
    using ne by (rule hd_map)
  also have "hd (drop 1 ms) = ms ! 1"
    using len by (intro hd_drop_conv_nth) simp
  finally have first: "hd (map entry_of (tl ms)) = entry_of (ms ! 1)"
    by (simp only: tl_drop)
  show "length (retained (appends ms w0) c) = 100" using len by (simp add: eq)
  show "hd (retained (appends ms w0) c) = entry_of (ms ! 1)" by (simp only: eq first)
  show "retained (appends ms w0) c = map entry_of (tl ms)" by (rule eq)
qed

theorem eviction_two_steps_witness:
  "has_text later \<and>
   retained (store_message later (store_message lunch initial)) (chat_id later) =
     spec_cap 100 (spec_drop_expired (date later)
       (retained (store_message lunch initial) (chat_id later) @ [entry_of later])) \<and>
   length burst = 101 \<and>
   length (retained (appends burst (store_message lunch initial)) 7) = 100 \<and>
   hd (retained (appends burst (store_message lunch initial)) 7) = entry_of (burst ! 1) \<and>
   retained (appends burst (store_message lunch initial)) 7 = map entry_of (tl burst)"
  using eviction_two_steps [of later "store_message lunch initial" burst 7 "store_message lunch initial"]
    has_text_later burst_length burst_members burst_window
  by blast


section \<open>Triggers without history, and the age of messages (C3)\<close>

text \<open>
  C3, as the code has it. A trigger for a conversation that the store has never seen
  replies that no messages are stored yet, without calling the generation service and
  without changing the store. For a known conversation, in every state the program can
  reach, the stored sequence is not empty and the trigger uses all of it, whatever the age
  of its messages: a body of fewer than 10 characters gets the reply that there is not
  enough text, without a call of the generation service, and otherwise the service is called
  with the body of the whole stored sequence; the reply that no messages were found is never
  delivered. The date of the trigger plays no part in its outcome.
\<close>

theorem no_history_and_no_time_filter:
  "(message_history w (chat_id m) = None \<longrightarrow>
      answers_only sv (lit ''No messages stored for this chat yet.'') w (summarize sv m w)) \<and>
   (reachable w \<and> message_history w (chat_id m) = Some msgs \<longrightarrow>
      msgs \<noteq> [] \<and>
      (length (text_to_summarize msgs) < 10 \<longrightarrow>
         answers_only sv (lit ''Not enough text to summarize.'') w (summarize sv m w)) \<and>
      (10 \<le> length (text_to_summarize msgs) \<longrightarrow>
         (\<exists>w'. summarize sv m w = Inr w' \<and>
               requests w' = requests w @
                 [(system_content, user_content (text_to_summarize msgs))])) \<and>
      (\<forall>w'. summarize sv m w = Inr w' \<longrightarrow>
         replies w' \<noteq> replies w @ [lit ''No messages found in chat.''])) \<and>
   summarize sv (m\<lparr>date := d\<rparr>) w = summarize sv m w"
proof (intro conjI impI allI)
  assume "message_history w (chat_id m) = None"
  then show "answers_only sv (lit ''No messages stored for this chat yet.'') w (summarize sv m w)"
    by (simp add: summarize_unknown answers_only_answered)
next
  show "summarize sv (m\<lparr>date := d\<rparr>) w = summarize sv m w" by (rule summarize_ignores_date)
next
  assume h: "reachable w \<and> message_history w (chat_id m) = Some msgs"
  then have known: "message_history w (chat_id m) = Some msgs" by (rule conjunct2)
  from h show ne: "msgs \<noteq> []" using reachable_nonempty by blast
  {
    assume "length (text_to_summarize msgs) < 10"
    with known ne have "summarize sv m w = Inr (answered sv (lit ''Not enough text to summarize.'') w)"
      by (intro summarize_short)
    then show "answers_only sv (lit ''Not enough text to summarize.'') w (summarize sv m w)"
      by (simp only: answers_only_answered)
  }
  {
    assume long: "10 \<le> length (text_to_summarize msgs)"
    show "\<exists>w'. summarize sv m w = Inr w' \<and>
               requests w' = requests w @
                 [(system_content, user_content (text_to_summarize msgs))]"
    proof (rule summarize_cases [where w = w and m = m and sv = sv])
    qed (use known ne long in \<open>auto simp: summarize_fault summarize_success
          summarize_undelivered answered_requests\<close>)
  }
  {
    fix w' assume run: "summarize sv m w = Inr w'"
    show "replies w' \<noteq> replies w @ [lit ''No messages found in chat.'']"
    proof (rule summarize_cases [where w = w and m = m and sv = sv])
    qed (use known ne run in \<open>auto simp: summarize_short summarize_fault summarize_success
          summarize_undelivered answered_not_found not_found_differs\<close>)
  }
qed

theorem no_history_and_no_time_filter_witness:
  "message_history initial (chat_id (command 1700007200000000)) = None \<and>
   answers_only (working (lit ''ok'')) (lit ''No messages stored for this chat yet.'') initial
     (summarize (working (lit ''ok'')) (command 1700007200000000) initial) \<and>
   reachable (store_message lunch initial) \<and>
   message_history (store_message lunch initial) (chat_id (command 1700007200000000)) =
     Some [entry_of lunch] \<and>
   msg_timestamp (entry_of lunch) < date (command 1700007200000000) - hour \<and>
   10 \<le> length (text_to_summarize [entry_of lunch]) \<and>
   (\<exists>w'. summarize (working (lit ''ok'')) (command 1700007200000000) (store_message lunch initial)
           = Inr w' \<and>
         requests w' = requests (store_message lunch initial) @
           [(system_content, user_content (text_to_summarize [entry_of lunch]))] \<and>
         replies w' \<noteq> replies (store_message lunch initial) @ [lit ''No messages found in chat.'']) \<and>
   summarize (working (lit ''ok'')) ((command 1700007200000000)\<lparr>date := 1700000000000000\<rparr>)
       (store_message lunch initial) =
     summarize (working (lit ''ok'')) (command 1700007200000000) (store_message lunch initial)"
proof -
  have a: "message_history initial (chat_id (command 1700007200000000)) = None"
    by (rule initial_history)
  have b: "message_history (store_message lunch initial) (chat_id (command 1700007200000000)) =
     Some [entry_of lunch]"
    by (simp only: chat_id_command stored_lunch)
  have c: "10 \<le> length (text_to_summarize [entry_of lunch])"
    by (simp add: body_lunch length_lit)
  have d: "msg_timestamp (entry_of lunch) < date (command 1700007200000000) - hour"
    by (simp add: timestamp_entry_of dates command_def hour_def)
  note t1 = no_history_and_no_time_filter [of initial "command 1700007200000000"
      "working (lit ''ok'')" "[]" 0]
  note t2 = no_history_and_no_time_filter [of "store_message lunch initial"
      "command 1700007200000000" "working (lit ''ok'')" "[entry_of lunch]" 1700000000000000]
  from t1 a have p1: "answers_only (working (lit ''ok'')) (lit ''No messages stored for this chat yet.'')
     initial (summarize (working (lit ''ok'')) (command 1700007200000000) initial)"
    by blast
  from t2 reachable_lunch b c obtain w' where w':
    "summarize (working (lit ''ok'')) (command 1700007200000000) (store_message lunch initial) = Inr w'"
    "requests w' = requests (store_message lunch initial) @
           [(system_content, user_content (text_to_summarize [entry_of lunch]))]"
    by blast
  from t2 reachable_lunch b w'(1)
  have p3: "replies w' \<noteq> replies (store_message lunch initial) @ [lit ''No messages found in chat.'']"
    by blast
  from t2 have p4: "summarize (working (lit ''ok'')) ((command 1700007200000000)\<lparr>date := 1700000000000000\<rparr>)
       (store_message lunch initial) =
     summarize (working (lit ''ok'')) (command 1700007200000000) (store_message lunch initial)"
    by blast
  from a p1 reachable_lunch b d c w' p3 p4 show ?thesis by blast
qed

text \<open>
  A trigger two hours after the only message of a conversation, when that message has aged
  out of the retention window, does not reply that no messages were found: it calls the
  generation service with the aged message and delivers the summary.
\<close>

theorem aged_out_counterexample:
  "list_all (\<lambda>e. msg_timestamp e < date (command 1700007200000000) - hour)
     (retained (store_message lunch initial) 7) \<and>
   summarize (working (lit ''ok'')) (command 1700007200000000) (store_message lunch initial) =
     Inr ((store_message lunch initial)
        \<lparr>requests := [(system_content, user_content (lit ''[@alice] lunch at noon''))],
         replies := [lit ''Summary:'' @ [10] @ lit ''ok'']\<rparr>) \<and>
   \<not> answers_only (working (lit ''ok'')) (lit ''No messages found in chat.'')
       (store_message lunch initial)
       (summarize (working (lit ''ok'')) (command 1700007200000000) (store_message lunch initial))"
proof -
  have r: "retained (store_message lunch initial) 7 = [entry_of lunch]"
    by (simp add: retained_present stored_lunch)
  have a: "list_all (\<lambda>e. msg_timestamp e < date (command 1700007200000000) - hour)
     (retained (store_message lunch initial) 7)"
    by (simp add: r timestamp_entry_of dates command_def hour_def)
  have b: "summarize (working (lit ''ok'')) (command 1700007200000000) (store_message lunch initial) =
     Inr ((store_message lunch initial)
        \<lparr>requests := [(system_content, user_content (lit ''[@alice] lunch at noon''))],
         replies := [lit ''Summary:'' @ [10] @ lit ''ok'']\<rparr>)"
    by (simp add: summarize_lunch fresh_store body_lunch)
  have c: "\<not> answers_only (working (lit ''ok'')) (lit ''No messages found in chat.'')
       (store_message lunch initial)
       (summarize (working (lit ''ok'')) (command 1700007200000000) (store_message lunch initial))"
    by (simp add: b answers_only_def fresh_store)
  from a b c show ?thesis by (intro conjI)
qed


section \<open>A failing generation call (C4)\<close>

text \<open>
  C4. When the generation call raises, or its response cannot be read, for a stored
  sequence that reaches the call: no exception leaves \<^verbatim>\<open>summarize\<close>, the store is
  unchanged, the one request is recorded, and the retry-later text is the reply (delivered
  unless \<^verbatim>\<open>reply_text\<close> raises). A later trigger in the same conversation, with a service
  that returns a summary and delivers the reply, then succeeds as usual: one more request,
  and the summary as its reply.
\<close>

theorem generation_fault_is_contained:
  assumes "message_history w (chat_id m) = Some msgs" and "msgs \<noteq> []"
    and "10 \<le> length (text_to_summarize msgs)"
    and "generation_result sv (text_to_summarize msgs) = Inl e"
  shows "\<exists>w'. summarize sv m w = Inr w' \<and>
           message_history w' = message_history w \<and>
           requests w' = requests w @ [(system_content, user_content (text_to_summarize msgs))] \<and>
           replies w' = (case reply_text sv failed_text of
                           Inl e \<Rightarrow> replies w | Inr u \<Rightarrow> replies w @ [failed_text]) \<and>
           (\<forall>sv2 m2 s. chat_id m2 = chat_id m \<and>
                generation_result sv2 (text_to_summarize msgs) = Inr s \<and>
                reply_text sv2 (lit ''Summary:'' @ [10] @ s) = Inr () \<longrightarrow>
              summarize sv2 m2 w' =
                Inr (w'\<lparr>requests := requests w' @
                           [(system_content, user_content (text_to_summarize msgs))],
                        replies := replies w' @ [lit ''Summary:'' @ [10] @ s]\<rparr>))"
proof -
  let ?w1 = "w\<lparr>requests := requests w @ [(system_content, user_content (text_to_summarize msgs))]\<rparr>"
  let ?w' = "answered sv failed_text ?w1"
  have run: "summarize sv m w = Inr ?w'"
    using assms by (rule summarize_fault)
  have hist: "message_history ?w' = message_history w"
    by (simp add: answered_history)
  have reqs: "requests ?w' = requests w @ [(system_content, user_content (text_to_summarize msgs))]"
    by (simp add: answered_requests)
  have reps: "replies ?w' = (case reply_text sv failed_text of
                           Inl e \<Rightarrow> replies w | Inr u \<Rightarrow> replies w @ [failed_text])"
    by (simp add: answered_replies split: sum.splits)
  have again: "summarize sv2 m2 ?w' =
                Inr (?w'\<lparr>requests := requests ?w' @
                           [(system_content, user_content (text_to_summarize msgs))],
                        replies := replies ?w' @ [lit ''Summary:'' @ [10] @ s]\<rparr>)"
    if "chat_id m2 = chat_id m \<and> generation_result sv2 (text_to_summarize msgs) = Inr s \<and>
        reply_text sv2 (lit ''Summary:'' @ [10] @ s) = Inr ()" for sv2 m2 s
  proof (rule summarize_success)
    show "message_history ?w' (chat_id m2) = Some msgs"
      using that assms(1) by (simp only: hist)
    show "msgs \<noteq> []" by (rule assms(2))
    show "10 \<le> length (text_to_summarize msgs)" by (rule assms(3))
    show "generation_result sv2 (text_to_summarize msgs) = Inr s" using that by blast
    show "reply_text sv2 (lit ''Summary:'' @ [10] @ s) = Inr ()" using that by blast
  qed
  from run hist reqs reps again show ?thesis by blast
qed

theorem generation_fault_is_contained_witness:
  "message_history (store_message lunch initial) (chat_id (command 1700000060000000)) =
     Some [entry_of lunch] \<and>
   10 \<le> length (text_to_summarize [entry_of lunch]) \<and>
   generation_result failing (text_to_summarize [entry_of lunch]) = Inl (ServiceError ''quota'') \<and>
   (\<exists>w'. summarize failing (command 1700000060000000) (store_message lunch initial) = Inr w' \<and>
      message_history w' = message_history (store_message lunch initial) \<and>
      replies w' = [failed_text] \<and>
      summarize (working (lit ''ok'')) (command 1700000120000000) w' =
        Inr (w'\<lparr>requests := requests w' @
                   [(system_content, user_content (text_to_summarize [entry_of lunch]))],
                replies := [failed_text, lit ''Summary:'' @ [10] @ lit ''ok'']\<rparr>))"
proof -
  have a: "message_history (store_message lunch initial) (chat_id (command 1700000060000000)) =
     Some [entry_of lunch]"
    by (simp only: chat_id_command stored_lunch)
  have b: "[entry_of lunch] \<noteq> []" by simp
  have c: "10 \<le> length (text_to_summarize [entry_of lunch])"
    by (simp add: body_lunch length_lit)
  have d: "generation_result failing (text_to_summarize [entry_of lunch]) = Inl (ServiceError ''quota'')"
    by (rule failing_result)
  from generation_fault_is_contained [OF a b c d]
  obtain w' where w': "summarize failing (command 1700000060000000) (store_message lunch initial) = Inr w'"
      "message_history w' = message_history (store_message lunch initial)"
      "replies w' = (case reply_text failing failed_text of
          Inl e \<Rightarrow> replies (store_message lunch initial)
        | Inr u \<Rightarrow> replies (store_message lunch initial) @ [failed_text])"
      "\<forall>sv2 m2 s. chat_id m2 = chat_id (command 1700000060000000) \<and>
                generation_result sv2 (text_to_summarize [entry_of lunch]) = Inr s \<and>
                reply_text sv2 (lit ''Summary:'' @ [10] @ s) = Inr () \<longrightarrow>
              summarize sv2 m2 w' =
                Inr (w'\<lparr>requests := requests w' @
                           [(system_content, user_content (text_to_summarize [entry_of lunch]))],
                        replies := replies w' @ [lit ''Summary:'' @ [10] @ s]\<rparr>)"
    by blast
  have reps: "replies w' = [failed_text]"
    by (simp add: w'(3) failing_reply fresh_store)
  have "chat_id (command 1700000120000000) = chat_id (command 1700000060000000) \<and>
        generation_result (working (lit ''ok'')) (text_to_summarize [entry_of lunch]) = Inr (lit ''ok'') \<and>
        reply_text (working (lit ''ok'')) (lit ''Summary:'' @ [10] @ lit ''ok'') = Inr ()"
    by (simp add: chat_id_command working_result strip_ok working_reply)
  with w'(4) have "summarize (working (lit ''ok'')) (command 1700000120000000) w' =
        Inr (w'\<lparr>requests := requests w' @
                   [(system_content, user_content (text_to_summarize [entry_of lunch]))],
                replies := replies w' @ [lit ''Summary:'' @ [10] @ lit ''ok'']\<rparr>)"
    by blast
  then have again: "summarize (working (lit ''ok'')) (command 1700000120000000) w' =
        Inr (w'\<lparr>requests := requests w' @
                   [(system_content, user_content (text_to_summarize [entry_of lunch]))],
                replies := [failed_text, lit ''Summary:'' @ [10] @ lit ''ok'']\<rparr>)"
    by (simp add: reps)
  from a c d w'(1,2) reps again show ?thesis by blast
qed


section \<open>A prompt body below the threshold (C5)\<close>

text \<open>
  C5. In every state the program can reach, a trigger for a conversation whose stored
  sequence renders to a prompt body of fewer than 10 characters replies that there is not
  enough text to summarize, and does not call the generation service.
\<close>

theorem short_body_is_not_sent:
  assumes "reachable w" and "message_history w (chat_id m) = Some msgs"
    and "length (text_to_summarize msgs) < 10"
  shows "answers_only sv (lit ''Not enough text to summarize.'') w (summarize sv m w)"
proof -
  from assms(1,2) have "msgs \<noteq> []" by (rule reachable_nonempty)
  with assms(2,3) have "summarize sv m w = Inr (answered sv (lit ''Not enough text to summarize.'') w)"
    by (intro summarize_short)
  then show ?thesis by (simp only: answers_only_answered)
qed

theorem short_body_is_not_sent_witness:
  "reachable (store_message ok_message initial) \<and>
   message_history (store_message ok_message initial) (chat_id (command 1700000120000000)) =
     Some [entry_of ok_message] \<and>
   length (text_to_summarize [entry_of ok_message]) < 10 \<and>
   answers_only (working (lit ''ok'')) (lit ''Not enough text to summarize.'')
     (store_message ok_message initial)
     (summarize (working (lit ''ok'')) (command 1700000120000000) (store_message ok_message initial))"
proof -
  have a: "message_history (store_message ok_message initial) (chat_id (command 1700000120000000)) =
     Some [entry_of ok_message]"
    by (simp only: chat_id_command stored_ok)
  have b: "length (text_to_summarize [entry_of ok_message]) < 10"
    by (simp add: body_ok length_lit)
  from short_body_is_not_sent [OF reachable_ok a b, of "working (lit ''ok'')"] reachable_ok a b
  show ?thesis by (intro conjI)
qed


section \<open>The delivered summary (C6)\<close>

text \<open>
  C6, as the code has it. When the generation call returns a response whose first choice
  has content \<open>s\<close>, the trigger sends \<open>s\<close> with its leading and trailing white space
  removed, after the fixed prefix \<^verbatim>\<open>Summary:\<close> and a line break; when that reply is
  delivered, it is the only reply of the trigger.
\<close>

theorem summary_is_stripped_and_prefixed:
  assumes "message_history w (chat_id m) = Some msgs" and "msgs \<noteq> []"
    and "10 \<le> length (text_to_summarize msgs)"
    and "create sv system_content (user_content (text_to_summarize msgs)) = Inr (Some s # rest)"
    and "reply_text sv (lit ''Summary:'' @ [10] @ strip s) = Inr u"
  shows "summarize sv m w =
           Inr (w\<lparr>requests := requests w @ [(system_content, user_content (text_to_summarize msgs))],
                  replies := replies w @ [lit ''Summary:'' @ [10] @ strip s]\<rparr>)"
proof -
  from assms(4) have "generation_result sv (text_to_summarize msgs) = Inr (strip s)"
    by (simp add: generation_result_def first_content_def)
  with assms(1,2,3) show ?thesis using assms(5) by (rule summarize_success)
qed

theorem summary_is_stripped_and_prefixed_witness:
  "message_history (store_message lunch initial) (chat_id (command 1700000060000000)) =
     Some [entry_of lunch] \<and>
   10 \<le> length (text_to_summarize [entry_of lunch]) \<and>
   create (working (lit '' ok '')) system_content (user_content (text_to_summarize [entry_of lunch]))
     = Inr [Some (lit '' ok '')] \<and>
   summarize (working (lit '' ok '')) (command 1700000060000000) (store_message lunch initial) =
     Inr ((store_message lunch initial)
        \<lparr>requests := [(system_content, user_content (text_to_summarize [entry_of lunch]))],
         replies := [lit ''Summary:'' @ [10] @ lit ''ok'']\<rparr>)"
proof -
  have a: "message_history (store_message lunch initial) (chat_id (command 1700000060000000)) =
     Some [entry_of lunch]"
    by (simp only: chat_id_command stored_lunch)
  have b: "[entry_of lunch] \<noteq> []" by simp
  have c: "10 \<le> length (text_to_summarize [entry_of lunch])"
    by (simp add: body_lunch length_lit)
  have d: "create (working (lit '' ok '')) system_content (user_content (text_to_summarize [entry_of lunch]))
     = Inr (Some (lit '' ok '') # [])"
    by (rule working_create)
  have e: "reply_text (working (lit '' ok '')) (lit ''Summary:'' @ [10] @ strip (lit '' ok '')) = Inr ()"
    by (rule working_reply)
  from summary_is_stripped_and_prefixed [OF a b c d e] a c d
  show ?thesis by (simp add: strip_padded fresh_store)
qed


text \<open>
  The returned text is not delivered verbatim: a content of \<^verbatim>\<open>ok\<close> between two spaces is
  delivered without the spaces, so the reply does not end with the returned text.
\<close>

theorem verbatim_counterexample:
  "create (working (lit '' ok '')) system_content (user_content (text_to_summarize [entry_of lunch]))
     = Inr [Some (lit '' ok '')] \<and>
   summarize (working (lit '' ok '')) (command 1700000060000000) (store_message lunch initial) =
     Inr ((store_message lunch initial)
        \<lparr>requests := [(system_content, user_content (text_to_summarize [entry_of lunch]))],
         replies := [lit ''Summary:'' @ [10] @ lit ''ok'']\<rparr>) \<and>
   lit ''Summary:'' @ [10] @ lit ''ok'' \<noteq> lit ''Summary:'' @ [10] @ lit '' ok '' \<and>
   lit ''Summary:'' @ [10] @ lit ''ok'' \<noteq> lit ''Summary:'' @ lit '' ok '' \<and>
   last_n (length (lit '' ok '')) (lit ''Summary:'' @ [10] @ lit ''ok'') \<noteq> lit '' ok ''"
proof -
  have run: "summarize (working (lit '' ok '')) (command 1700000060000000) (store_message lunch initial) =
     Inr ((store_message lunch initial)
        \<lparr>requests := requests (store_message lunch initial) @
            [(system_content, user_content (text_to_summarize [entry_of lunch]))],
         replies := replies (store_message lunch initial) @ [lit ''Summary:'' @ [10] @ lit ''ok'']\<rparr>)"
  proof (rule summarize_success)
    show "message_history (store_message lunch initial) (chat_id (command 1700000060000000)) =
        Some [entry_of lunch]"
      by (simp only: chat_id_command stored_lunch)
    show "[entry_of lunch] \<noteq> []" by simp
    show "10 \<le> length (text_to_summarize [entry_of lunch])"
      by (simp add: body_lunch length_lit)
    show "generation_result (working (lit '' ok '')) (text_to_summarize [entry_of lunch]) = Inr (lit ''ok'')"
      by (simp only: working_result strip_padded)
    show "reply_text (working (lit '' ok '')) (lit ''Summary:'' @ [10] @ lit ''ok'') = Inr ()"
      by (rule working_reply)
  qed
  have differs: "lit ''Summary:'' @ [10] @ lit ''ok'' \<noteq> lit ''Summary:'' @ [10] @ lit '' ok ''"
    "lit ''Summary:'' @ [10] @ lit ''ok'' \<noteq> lit ''Summary:'' @ lit '' ok ''"
    "last_n (length (lit '' ok '')) (lit ''Summary:'' @ [10] @ lit ''ok'') \<noteq> lit '' ok ''"
    by (simp_all add: lit_def last_n_def)
  from run differs working_create [of "lit '' ok ''"] show ?thesis
    by (simp add: fresh_store)
qed


section \<open>The prompt body (C7)\<close>

text \<open>
  C7. The prompt body built from a sequence is each message rendered as its bracketed
  author and its text, concatenated in order with one space between neighbours. A trigger
  leaves the store as it was, and the request it makes, if any, carries the body built from
  the stored sequence of its conversation.
\<close>

theorem prompt_body_is_rendered_in_order:
  "text_to_summarize msgs = spec_build msgs \<and>
   (summarize sv m w = Inr w' \<longrightarrow>
      message_history w' = message_history w \<and>
      (requests w' = requests w \<or>
       requests w' = requests w @
         [(system_content, user_content (spec_build (retained w (chat_id m))))]))"
proof (intro conjI impI)
  show "text_to_summarize msgs = spec_build msgs" by (rule text_to_summarize_spec)
next
  assume run: "summarize sv m w = Inr w'"
  then show "message_history w' = message_history w" by (rule summarize_history)
  show "requests w' = requests w \<or>
       requests w' = requests w @
         [(system_content, user_content (spec_build (retained w (chat_id m))))]"
  proof (rule summarize_cases [where w = w and m = m and sv = sv])
  qed (use run in \<open>auto simp: summarize_unknown summarize_empty summarize_short summarize_fault
        summarize_success summarize_undelivered answered_requests retained_present
        text_to_summarize_spec\<close>)
qed

theorem prompt_body_is_rendered_in_order_witness:
  "text_to_summarize [entry_of lunch, entry_of ok_message] =
     lit ''[@alice] lunch at noon [@bob] ok'' \<and>
   summarize (working (lit ''ok'')) (command 1700000120000000) (store_message lunch initial) =
     Inr ((store_message lunch initial)
        \<lparr>requests := [(system_content, user_content (lit ''[@alice] lunch at noon''))],
         replies := [lit ''Summary:'' @ [10] @ lit ''ok'']\<rparr>) \<and>
   message_history ((store_message lunch initial)
        \<lparr>requests := [(system_content, user_content (lit ''[@alice] lunch at noon''))],
         replies := [lit ''Summary:'' @ [10] @ lit ''ok'']\<rparr>) =
     message_history (store_message lunch initial)"
proof -
  have run: "summarize (working (lit ''ok'')) (command 1700000120000000) (store_message lunch initial) =
     Inr ((store_message lunch initial)
        \<lparr>requests := [(system_content, user_content (lit ''[@alice] lunch at noon''))],
         replies := [lit ''Summary:'' @ [10] @ lit ''ok'']\<rparr>)"
    by (simp add: summarize_lunch fresh_store body_lunch)
  from prompt_body_is_rendered_in_order [of "[entry_of lunch, entry_of ok_message]"
      "working (lit ''ok'')" "command 1700000120000000" "store_message lunch initial"
      "(store_message lunch initial)
        \<lparr>requests := [(system_content, user_content (lit ''[@alice] lunch at noon''))],
         replies := [lit ''Summary:'' @ [10] @ lit ''ok'']\<rparr>"] run
  have "text_to_summarize [entry_of lunch, entry_of ok_message] =
          spec_build [entry_of lunch, entry_of ok_message]"
    and "message_history ((store_message lunch initial)
        \<lparr>requests := [(system_content, user_content (lit ''[@alice] lunch at noon''))],
         replies := [lit ''Summary:'' @ [10] @ lit ''ok'']\<rparr>) =
     message_history (store_message lunch initial)"
    by blast+
  with run show ?thesis by (simp only: spec_build_example simp_thms)
qed


section \<open>Isolation of conversations (C8)\<close>

text \<open>
  C8. An append to one conversation leaves the entry of every other conversation id as it
  was: absent if it was absent, and with the same sequence otherwise.
\<close>

theorem frame_other_conversations:
  "c \<noteq> chat_id m \<Longrightarrow> message_history (store_message m w) c = message_history w c"
  by (auto simp: store_message_def Let_def split: option.splits)

theorem frame_other_conversations_witness:
  "(8::int) \<noteq> chat_id lunch \<and>
   message_history (store_message lunch (store_message (lunch\<lparr>chat_id := 8\<rparr>) initial)) 8 =
   message_history (store_message (lunch\<lparr>chat_id := 8\<rparr>) initial) 8 \<and>
   message_history (store_message lunch initial) 8 = None"
proof -
  have h: "(8::int) \<noteq> chat_id lunch" by (simp add: chat_ids)
  from frame_other_conversations [OF h, of "store_message (lunch\<lparr>chat_id := 8\<rparr>) initial"]
       frame_other_conversations [OF h, of initial] h
  show ?thesis by (simp add: initial_history)
qed


section \<open>The appended message survives (C10)\<close>

text \<open>
  C10. After the append of a message with text, the sequence of its conversation is not
  empty and ends with the entry of that message; and in every state the program can reach,
  no conversation id maps to an empty sequence.
\<close>

theorem appended_message_survives:
  assumes "reachable w"
  shows "(has_text m \<longrightarrow>
            (\<exists>xs. message_history (store_message m w) (chat_id m) = Some xs \<and>
                  xs \<noteq> [] \<and> last xs = entry_of m)) \<and>
         (\<forall>c xs. message_history w c = Some xs \<longrightarrow> xs \<noteq> [])"
proof (intro conjI impI allI)
  assume t: "has_text m"
  from store_message_present [OF t, of w] retained_store_last [OF t, of w]
  show "\<exists>xs. message_history (store_message m w) (chat_id m) = Some xs \<and>
                  xs \<noteq> [] \<and> last xs = entry_of m"
    by blast
next
  fix c xs assume "message_history w c = Some xs"
  with assms show "xs \<noteq> []" by (rule reachable_nonempty)
qed

theorem appended_message_survives_witness:
  "reachable (store_message lunch initial) \<and> has_text ok_message \<and>
   (\<exists>xs. message_history (store_message ok_message (store_message lunch initial)) 7 = Some xs \<and>
         xs \<noteq> [] \<and> last xs = entry_of ok_message) \<and>
   message_history (store_message lunch initial) 7 = Some [entry_of lunch] \<and>
   [entry_of lunch] \<noteq> []"
  using appended_message_survives [OF reachable_lunch, of ok_message]
    reachable_lunch has_text_ok stored_lunch
  by (simp add: chat_ids)

end
